theory Spec2Isabelle
  imports Complex_Main
begin

section \<open>Numbers and arrays\<close>

text \<open>
  The simulator computes on numpy \<open>float64\<close> values. A value is modelled as an exact
  real number or one of the three special values of the format; rounding and the sign of
  zero are not modelled, so a division of a non-zero number by zero gives the infinity
  with the sign of the numerator. numpy does not raise on a division by zero: it warns
  and stores the infinity or the NaN, and the model does the same.
\<close>

datatype float64 = Num real | PosInf | NegInf | NaN

fun np_isfinite :: "float64 \<Rightarrow> bool" where
  "np_isfinite (Num x) = True"
| "np_isfinite _ = False"

fun val :: "float64 \<Rightarrow> real" where
  "val (Num x) = x"
| "val _ = 0"

text \<open>Sign of a value that is not NaN: \<open>1\<close>, \<open>0\<close> or \<open>-1\<close>.\<close>

fun fsign :: "float64 \<Rightarrow> int" where
  "fsign (Num x) = (if x = 0 then 0 else if 0 < x then 1 else -1)"
| "fsign PosInf = 1"
| "fsign NegInf = -1"
| "fsign NaN = 0"

definition inf_of_sign :: "int \<Rightarrow> float64" where
  "inf_of_sign s = (if s = 0 then NaN else if 0 < s then PosInf else NegInf)"

instantiation float64 :: "{plus, minus, uminus, times, inverse, ord}"
begin

fun uminus_float64 :: "float64 \<Rightarrow> float64" where
  "- Num x = Num (- x)"
| "- PosInf = NegInf"
| "- NegInf = PosInf"
| "- NaN = NaN"

fun plus_float64 :: "float64 \<Rightarrow> float64 \<Rightarrow> float64" where
  "Num x + Num y = Num (x + y)"
| "NaN + _ = NaN"
| "_ + NaN = NaN"
| "PosInf + NegInf = NaN"
| "NegInf + PosInf = NaN"
| "PosInf + _ = PosInf"
| "_ + PosInf = PosInf"
| "NegInf + _ = NegInf"
| "_ + NegInf = NegInf"

definition minus_float64 :: "float64 \<Rightarrow> float64 \<Rightarrow> float64" where
  "a - b = a + (- (b :: float64))"

fun times_float64 :: "float64 \<Rightarrow> float64 \<Rightarrow> float64" where
  "Num x * Num y = Num (x * y)"
| "NaN * _ = NaN"
| "_ * NaN = NaN"
| "a * b = inf_of_sign (fsign a * fsign b)"

fun divide_float64 :: "float64 \<Rightarrow> float64 \<Rightarrow> float64" where
  "divide_float64 (Num x) (Num y) =
     (if y = 0 then inf_of_sign (fsign (Num x)) else Num (x / y))"
| "divide_float64 NaN _ = NaN"
| "divide_float64 _ NaN = NaN"
| "divide_float64 (Num x) _ = Num 0"
| "divide_float64 a (Num y) = inf_of_sign (fsign a * (if y < 0 then -1 else 1))"
| "divide_float64 _ _ = NaN"

definition inverse_float64 :: "float64 \<Rightarrow> float64" where
  "inverse a = divide (Num 1) (a :: float64)"

text \<open>Comparisons involving NaN are false, as in IEEE arithmetic.\<close>

fun less_float64 :: "float64 \<Rightarrow> float64 \<Rightarrow> bool" where
  "Num x < Num y = (x < y)"
| "NaN < _ = False"
| "_ < NaN = False"
| "_ < NegInf = False"
| "PosInf < _ = False"
| "_ < PosInf = True"
| "NegInf < _ = True"

definition less_eq_float64 :: "float64 \<Rightarrow> float64 \<Rightarrow> bool" where
  "a \<le> b \<longleftrightarrow> a < b \<or> (a = b \<and> a \<noteq> NaN)" for a b :: float64

instance ..

end

text \<open>The truth value of a number (\<open>np.where(a, ...)\<close>, \<open>elif x:\<close>): every value but zero.\<close>

definition truthy :: "float64 \<Rightarrow> bool" where
  "truthy a = (a \<noteq> Num 0)"

text \<open>\<open>x == 0\<close> on floats.\<close>

definition eq_zero :: "float64 \<Rightarrow> bool" where
  "eq_zero a = (a = Num 0)"

definition np_isinf :: "float64 \<Rightarrow> bool" where
  "np_isinf a = (a = PosInf \<or> a = NegInf)"

text \<open>\<open>np.fmax\<close>: the larger value, ignoring a NaN when the other argument is a number.\<close>

definition np_fmax :: "float64 \<Rightarrow> float64 \<Rightarrow> float64" where
  "np_fmax a b = (if a = NaN then b else if b = NaN then a else if a < b then b else a)"

text \<open>\<open>np.trunc\<close>: rounding towards zero.\<close>

definition trunc_real :: "real \<Rightarrow> int" where
  "trunc_real x = (if 0 \<le> x then \<lfloor>x\<rfloor> else \<lceil>x\<rceil>)"

fun np_trunc :: "float64 \<Rightarrow> float64" where
  "np_trunc (Num x) = Num (of_int (trunc_real x))"
| "np_trunc a = a"

text \<open>\<open>a.clip(lo)\<close>: the lower bound only; a NaN stays a NaN.\<close>

definition clip_min :: "float64 \<Rightarrow> float64 \<Rightarrow> float64" where
  "clip_min lo a = (if a < lo then lo else a)"

text \<open>\<open>a.sum()\<close>; the sum of an empty array is zero.\<close>

fun np_sum :: "float64 list \<Rightarrow> float64" where
  "np_sum [] = Num 0"
| "np_sum (x # xs) = x + np_sum xs"

text \<open>
  Arrays are lists, and an operation on arrays of one shape is \<open>map2\<close>. The theorems
  below assume that the arrays of one call have the same length, which numpy checks.
\<close>

definition map3 :: "('a \<Rightarrow> 'b \<Rightarrow> 'c \<Rightarrow> 'd) \<Rightarrow> 'a list \<Rightarrow> 'b list \<Rightarrow> 'c list \<Rightarrow> 'd list" where
  "map3 f xs ys zs = map (\<lambda>(x, y, z). f x y z) (zip xs (zip ys zs))"

section \<open>The cost model (class Cost of finance.py)\<close>

record Cost =
  buy_fix :: float64
  sell_fix :: float64
  buy_rate :: float64
  sell_rate :: float64
  buy_min :: float64
  sell_min :: float64
  slipage :: float64

text \<open>The default arguments of \<open>Cost.__init__\<close>.\<close>

definition default_Cost :: Cost where
  "default_Cost = \<lparr>buy_fix = Num 0, sell_fix = Num 0, buy_rate = Num (3 / 1000),
     sell_rate = Num (1 / 1000), buy_min = Num 5, sell_min = Num 0, slipage = Num 0\<rparr>"

text \<open>
  The local array \<open>min_rate\<close> of \<open>Cost.calculate\<close>, which is computed in the rate mode
  when the minimum fee is not zero. When buying it is \<open>bm / (trade_values - bm)\<close>. When
  selling it is \<open>-sm / trade_values\<close>, and its infinite entries are then overwritten with
  zero (\<open>min_rate[np.isinf(min_rate)] = 0\<close>); the buying branch has no such line.
\<close>

definition min_rate_buy :: "float64 \<Rightarrow> float64 list \<Rightarrow> float64 list" where
  "min_rate_buy bm trade_values = map (\<lambda>v. bm / (v - bm)) trade_values"

definition min_rate_sell :: "float64 \<Rightarrow> float64 list \<Rightarrow> float64 list" where
  "min_rate_sell sm trade_values =
     (let min_rate = map (\<lambda>v. (- sm) / v) trade_values
      in map (\<lambda>m. if np_isinf m then Num 0 else m) min_rate)"

text \<open>\<open>Cost.calculate\<close>: fees in the fixed-fee mode, rates otherwise.\<close>

definition calculate :: "Cost \<Rightarrow> float64 list \<Rightarrow> bool \<Rightarrow> bool \<Rightarrow> float64 list" where
  "calculate c trade_values is_buying fixed_fees =
     (let bf = buy_fix c; sf = sell_fix c; br = buy_rate c; sr = sell_rate c;
          bm = buy_min c; sm = sell_min c; slp = slipage c
      in if fixed_fees then
           (if is_buying then map (\<lambda>v. bf + slp * (v * v)) trade_values
            else map (\<lambda>v. sf + slp * (v * v)) trade_values)
         else if is_buying then
           (if eq_zero bm then map (\<lambda>v. br + slp * v) trade_values
            else
              let min_rate = min_rate_buy bm trade_values
              in map2 (\<lambda>m v. np_fmax br m + slp * v) min_rate trade_values)
         else
           (if eq_zero sm then map (\<lambda>v. sr - slp * v) trade_values
            else
              let min_rate = min_rate_sell sm trade_values
              in map2 (\<lambda>m v. np_fmax sr m + slp * v) min_rate trade_values))"

text \<open>
  \<open>Cost.get_selling_result(prices, a_to_sell, moq=0.)\<close>: the quantities sold (negative
  numbers), the cash gained and the fee.
\<close>

definition get_selling_result ::
  "Cost \<Rightarrow> float64 list \<Rightarrow> float64 list \<Rightarrow> float64 \<Rightarrow> float64 list \<times> float64 \<times> float64" where
  "get_selling_result c prices a_to_sell moq =
     (let a_sold = (if eq_zero moq then a_to_sell
                    else map (\<lambda>a. np_trunc (a / moq) * moq) a_to_sell);
          sold_values = map2 (\<lambda>a p. a * p) a_sold prices
      in if eq_zero (sell_fix c) then
           (let rates = calculate c sold_values False False;
                cash_gained = np_sum (map2 (\<lambda>v r. Num (-1) * v * (Num 1 - r)) sold_values rates);
                fee = - np_sum (map2 (\<lambda>v r. v * r) sold_values rates)
            in (a_sold, cash_gained, fee))
         else
           (let fixed_fees = calculate c sold_values False True;
                fee = np_sum (map2 (\<lambda>a f. if truthy a then f else Num 0) a_sold fixed_fees);
                cash_gained = - np_sum sold_values - fee
            in (a_sold, cash_gained, fee)))"

text \<open>
  \<open>Cost.get_purchase_result(prices, cash_to_spend, moq)\<close>. The three arrays that the
  method builds (quantities bought, fee and cash spent per instrument) are definitions of
  their own; the method returns the quantities and the sums of the other two. The branch
  \<open>elif self.buy_fix:\<close> is taken by every value that is not zero.
\<close>

definition purchase_rates :: "Cost \<Rightarrow> float64 list \<Rightarrow> float64 list" where
  "purchase_rates c cash_to_spend = calculate c cash_to_spend True False"

definition purchase_fixed_fees :: "Cost \<Rightarrow> float64 list \<Rightarrow> float64 list" where
  "purchase_fixed_fees c cash_to_spend = calculate c cash_to_spend True True"

definition a_purchased :: "Cost \<Rightarrow> float64 list \<Rightarrow> float64 list \<Rightarrow> float64 \<Rightarrow> float64 list" where
  "a_purchased c prices cash_to_spend moq =
     (if eq_zero (buy_fix c) then
        (let rates = purchase_rates c cash_to_spend
         in if eq_zero moq then
              map3 (\<lambda>p s r. if truthy p then s / (p * (Num 1 + r)) else Num 0)
                prices cash_to_spend rates
            else
              map3 (\<lambda>p s r. if truthy p then np_trunc (s / (p * moq * (Num 1 + r))) * moq
                              else Num 0)
                prices cash_to_spend rates)
      else
        (let fixed_fees = purchase_fixed_fees c cash_to_spend
         in if eq_zero moq then
              map3 (\<lambda>p s f. np_fmax (if truthy p then (s - f) / p else Num 0) (Num 0))
                prices cash_to_spend fixed_fees
            else
              map3 (\<lambda>p s f. np_fmax (if truthy p then np_trunc ((s - f) / (p * moq)) * moq
                                       else Num 0) (Num 0))
                prices cash_to_spend fixed_fees))"

definition purchase_fees :: "Cost \<Rightarrow> float64 list \<Rightarrow> float64 list \<Rightarrow> float64 \<Rightarrow> float64 list" where
  "purchase_fees c prices cash_to_spend moq =
     (let a = a_purchased c prices cash_to_spend moq
      in if eq_zero (buy_fix c) then
           map3 (\<lambda>a p r. if truthy a then np_fmax (a * p * r) (buy_min c) else Num 0)
             a prices (purchase_rates c cash_to_spend)
         else
           map2 (\<lambda>a f. if truthy a then f else Num 0) a (purchase_fixed_fees c cash_to_spend))"

definition cash_spent :: "Cost \<Rightarrow> float64 list \<Rightarrow> float64 list \<Rightarrow> float64 \<Rightarrow> float64 list" where
  "cash_spent c prices cash_to_spend moq =
     (let a = a_purchased c prices cash_to_spend moq
      in if eq_zero (buy_fix c) then
           (let fees = purchase_fees c prices cash_to_spend moq;
                purchased_values = map3 (\<lambda>a p f. a * p + f) a prices fees
            in map2 (\<lambda>a v. if truthy a then Num (-1) * v else Num 0) a purchased_values)
         else
           map3 (\<lambda>a p f. if truthy a then Num (-1) * a * p - f else Num 0)
             a prices (purchase_fixed_fees c cash_to_spend))"

definition get_purchase_result ::
  "Cost \<Rightarrow> float64 list \<Rightarrow> float64 list \<Rightarrow> float64 \<Rightarrow> float64 list \<times> float64 \<times> float64" where
  "get_purchase_result c prices cash_to_spend moq =
     (a_purchased c prices cash_to_spend moq,
      np_sum (cash_spent c prices cash_to_spend moq),
      np_sum (purchase_fees c prices cash_to_spend moq))"

section \<open>Python calls with keyword arguments\<close>

type_synonym date = int

text \<open>
  The exceptions of the modelled code. A \<open>ValueError\<close> carries the dates that its message
  names (none for a message that names no date).
\<close>

datatype py_error = AssertionError | KeyError | TypeError | IndexError | ValueError "date list"

text \<open>
  A call such as \<open>f(prices=p, moq=m)\<close> is a list of keywords with their values, which are
  arrays or numbers. Python binds the keywords to the parameters that the function
  declares, each with its default or none: a keyword that is not declared raises
  TypeError (unexpected keyword argument), and so does a parameter without default that
  the call does not give (missing required argument).
\<close>

datatype arg = Array "float64 list" | Number float64

type_synonym kwargs = "(string \<times> arg) list"

definition bind_keywords :: "(string \<times> arg option) list \<Rightarrow> kwargs \<Rightarrow> py_error + (string \<rightharpoonup> arg)" where
  "bind_keywords params call =
     (if filter (\<lambda>k. k \<notin> set (map fst params)) (map fst call) \<noteq> [] then Inl TypeError
      else if filter (\<lambda>(p, d). d = None \<and> p \<notin> set (map fst call)) params \<noteq> [] then Inl TypeError
      else Inr (\<lambda>p. case map_of call p of
                       Some a \<Rightarrow> Some a
                     | None \<Rightarrow> (case map_of params p of Some d \<Rightarrow> d | None \<Rightarrow> None)))"

section \<open>The trade step (\_loop\_step of core.py)\<close>

text \<open>
  \<open>_loop_step\<close> calls two methods of the object \<open>rate\<close> that it is given, with keywords:
  \<open>rate.get_selling_result(prices=prices, op=op, amounts=pre_amounts)\<close> and
  \<open>rate.get_purchase_result(prices=prices, op=op, pur_values=pur_values, moq=moq)\<close>.
  An object is its two methods, each taking a call and returning its three results or
  raising.
\<close>

record rate_object =
  selling_result :: "kwargs \<Rightarrow> py_error + float64 list \<times> float64 \<times> float64"
  purchase_result :: "kwargs \<Rightarrow> py_error + float64 list \<times> float64 \<times> float64"

text \<open>
  An object of class \<open>Cost\<close>: finance.py declares
  \<open>get_selling_result(self, prices, a_to_sell, moq=0.)\<close> and
  \<open>get_purchase_result(self, prices, cash_to_spend, moq)\<close>. The bodies are the two
  functions above; they are run on arrays for \<open>prices\<close>, \<open>a_to_sell\<close> and \<open>cash_to_spend\<close>
  and a number for \<open>moq\<close>, and a call with values of another kind, which no call in the
  sources makes, is refused.
\<close>

definition Cost_object :: "Cost \<Rightarrow> rate_object" where
  "Cost_object c =
     \<lparr>selling_result = (\<lambda>call.
        case bind_keywords [(''prices'', None), (''a_to_sell'', None),
                            (''moq'', Some (Number (Num 0)))] call of
          Inl e \<Rightarrow> Inl e
        | Inr args \<Rightarrow>
           (case (args ''prices'', args ''a_to_sell'', args ''moq'') of
              (Some (Array prices), Some (Array a_to_sell), Some (Number moq)) \<Rightarrow>
                 Inr (get_selling_result c prices a_to_sell moq)
            | _ \<Rightarrow> Inl TypeError)),
      purchase_result = (\<lambda>call.
        case bind_keywords [(''prices'', None), (''cash_to_spend'', None), (''moq'', None)] call of
          Inl e \<Rightarrow> Inl e
        | Inr args \<Rightarrow>
           (case (args ''prices'', args ''cash_to_spend'', args ''moq'') of
              (Some (Array prices), Some (Array cash_to_spend), Some (Number moq)) \<Rightarrow>
                 Inr (get_purchase_result c prices cash_to_spend moq)
            | _ \<Rightarrow> Inl TypeError))\<rparr>"

text \<open>
  The cash allocated to the purchases of a step: the value before the trade times the
  positive part of the signal, scaled down in proportion when its sum exceeds the cash
  at hand after the sales.
\<close>

definition pur_values :: "float64 \<Rightarrow> float64 list \<Rightarrow> float64 \<Rightarrow> float64 list" where
  "pur_values pre_value op cash =
     (let pur_values = map (\<lambda>s. pre_value * clip_min (Num 0) s) op
      in if cash < np_sum pur_values
         then map (\<lambda>v. v / np_sum pur_values * cash) pur_values
         else pur_values)"

text \<open>
  \<open>_loop_step\<close>: an exception of a method of \<open>rate\<close> ends the step. The sale is called
  without \<open>moq\<close>, the purchase with it.
\<close>

definition loop_step ::
  "rate_object \<Rightarrow> float64 \<Rightarrow> float64 list \<Rightarrow> float64 list \<Rightarrow> float64 list \<Rightarrow> float64
     \<Rightarrow> py_error + float64 \<times> float64 list \<times> float64 \<times> float64" where
  "loop_step rate pre_cash pre_amounts op prices moq =
     (let pre_value = pre_cash + np_sum (map2 (\<lambda>a p. a * p) pre_amounts prices)
      in case selling_result rate
                [(''prices'', Array prices), (''op'', Array op), (''amounts'', Array pre_amounts)] of
           Inl e \<Rightarrow> Inl e
         | Inr (amount_sold, cash_gained, fee_selling) \<Rightarrow>
            (let cash = pre_cash + cash_gained;
                 pur_values = pur_values pre_value op cash
             in case purchase_result rate
                       [(''prices'', Array prices), (''op'', Array op),
                        (''pur_values'', Array pur_values), (''moq'', Number moq)] of
                  Inl e \<Rightarrow> Inl e
                | Inr (amount_purchased, spent, fee_buying) \<Rightarrow>
                   (let fee = fee_buying + fee_selling;
                        amounts = map2 (\<lambda>a s. a + s)
                                    (map2 (\<lambda>a b. a + b) pre_amounts amount_purchased) amount_sold;
                        cash = cash + spent;
                        value = np_sum (map2 (\<lambda>a p. a * p) amounts prices) + cash
                    in Inr (cash, amounts, fee, value))))"

section \<open>The simulation driver (apply\_loop of core.py)\<close>

text \<open>
  A pandas table is a number of columns and a list of rows, each with its index label, in
  the order of the table. The index labels are dates, modelled as day numbers. An index
  is assumed to hold no date twice.
\<close>

record frame =
  ncols :: nat
  rows :: "(date \<times> float64 list) list"


text \<open>\<open>DataFrame.empty\<close>: an axis of length zero.\<close>

definition frame_empty :: "frame \<Rightarrow> bool" where
  "frame_empty df = (ncols df = 0 \<or> rows df = [])"










text \<open>
  The growth factors of the cash: the days from the previous date of the loop (zero for
  the first date) times the rate, divided by 250.
\<close>

definition days_difference :: "date list \<Rightarrow> int list" where
  "days_difference looped_dates =
     (case looped_dates of [] \<Rightarrow> []
      | d # ds \<Rightarrow> 0 # map2 (\<lambda>prev cur. cur - prev) looped_dates ds)"

definition inflation_factors :: "float64 \<Rightarrow> date list \<Rightarrow> float64 list" where
  "inflation_factors inflation_rate looped_dates =
     map (\<lambda>d. Num 1 + Num (of_int d) * inflation_rate / Num 250) (days_difference looped_dates)"





section \<open>The checks before a backtest (Operator.prepare\_data, run)\<close>





section \<open>The evaluator (\_get\_parameter\_performance of core.py)\<close>

text \<open>
  The function sets the parameters of the strategy and lets it make the signal table
  (\<open>op.set_opt_par(par)\<close>, \<open>op.create_signal(hist)\<close>); an empty table is scored
  \<open>-np.inf\<close> at once, and any other table is simulated and evaluated. The strategy and the
  evaluation functions (module evaluate is not among the sources) are the parameters
  \<open>create_signal\<close> and \<open>evaluate_signal\<close>; each of them returns a value or raises.
\<close>

definition get_parameter_performance ::
  "('par \<Rightarrow> py_error + frame) \<Rightarrow> (frame \<Rightarrow> py_error + float64) \<Rightarrow> 'par \<Rightarrow> py_error + float64" where
  "get_parameter_performance create_signal evaluate_signal par =
     (case create_signal par of
        Inl e \<Rightarrow> Inl e
      | Inr op_list \<Rightarrow> if frame_empty op_list then Inr NegInf else evaluate_signal op_list)"

section \<open>The result pool\<close>

text \<open>
  Modelled from the spec: class \<open>ResultPool\<close> of module space, which is not among the
  sources; core.py creates it with a capacity and calls \<open>in_pool\<close>, \<open>cut\<close>, \<open>pars\<close> and
  \<open>perfs\<close>. By the spec it is a bounded container of entries (parameter vector, score).
\<close>

record ('p, 's) ResultPool =
  capacity :: nat
  items :: "('p \<times> 's) list"

text \<open>Modelled from the spec: \<open>ResultPool(capacity)\<close>, an empty pool.\<close>

definition new_pool :: "nat \<Rightarrow> ('p, 's) ResultPool" where
  "new_pool k = \<lparr>capacity = k, items = []\<rparr>"

text \<open>
  Modelled from the spec: \<open>in_pool(item, perf)\<close> deposits one entry. The spec counts the
  distinct entries inserted, so an entry that is in the pool already is not stored again.
\<close>

definition in_pool :: "('p, 's) ResultPool \<Rightarrow> 'p \<Rightarrow> 's \<Rightarrow> ('p, 's) ResultPool" where
  "in_pool rp item perf =
     (if (item, perf) \<in> set (items rp) then rp else rp\<lparr>items := items rp @ [(item, perf)]\<rparr>)"

text \<open>Modelled from the spec: the insertion of a sequence of entries, one after the other.\<close>

definition in_pool_all :: "('p, 's) ResultPool \<Rightarrow> ('p \<times> 's) list \<Rightarrow> ('p, 's) ResultPool" where
  "in_pool_all rp es = fold (\<lambda>(item, perf) rp. in_pool rp item perf) es rp"

text \<open>
  Modelled from the spec: \<open>cut(keep_largest)\<close> trims the pool to its capacity. The entries
  are ranked by score with the best last (the highest when maximizing, the lowest when
  minimizing), and the last \<open>capacity\<close> of them are kept.
\<close>

definition cut_pool :: "('p, 's :: linorder) ResultPool \<Rightarrow> bool \<Rightarrow> ('p, 's) ResultPool" where
  "cut_pool rp keep_largest =
     (let ranked = (if keep_largest then sort_key snd (items rp)
                    else rev (sort_key snd (items rp)))
      in rp\<lparr>items := drop (length ranked - capacity rp) ranked\<rparr>)"

text \<open>Modelled from the spec: the two parallel sequences that a search returns.\<close>

definition pars :: "('p, 's) ResultPool \<Rightarrow> 'p list" where
  "pars rp = map fst (items rp)"

definition perfs :: "('p, 's) ResultPool \<Rightarrow> 's list" where
  "perfs rp = map snd (items rp)"


section \<open>Arithmetic of the number model\<close>

lemma add_is_Num: "a + b = Num r \<longleftrightarrow> (\<exists>x y. a = Num x \<and> b = Num y \<and> r = x + y)"
  by (cases a; cases b) auto

lemma mul_is_Num: "a * b = Num r \<longleftrightarrow> (\<exists>x y. a = Num x \<and> b = Num y \<and> r = x * y)"
  by (cases a; cases b) (auto simp: inf_of_sign_def)

lemma neg_is_Num: "- a = Num r \<longleftrightarrow> a = Num (- r)"
  by (cases a) auto

lemma sub_is_Num: "a - b = Num r \<longleftrightarrow> (\<exists>x y. a = Num x \<and> b = Num y \<and> r = x - y)"
  by (auto simp: minus_float64_def add_is_Num neg_is_Num)

lemma zero_add_float64: "Num 0 + a = a"
  by (cases a) auto

lemma np_sum_is_Num:
  "np_sum xs = Num r \<longleftrightarrow> (\<forall>x\<in>set xs. np_isfinite x) \<and> r = sum_list (map val xs)"
proof (induction xs arbitrary: r)
  case Nil
  show ?case by auto
next
  case (Cons x xs)
  show ?case
  proof (cases x)
    case (Num v)
    then show ?thesis using Cons.IH by (auto simp: add_is_Num)
  qed (auto simp: add_is_Num)
qed

lemma np_trunc_is_Num: "np_trunc a = Num r \<Longrightarrow> \<exists>k::int. r = of_int k"
  by (cases a) auto

lemma trunc_times_multiple:
  "np_trunc a * Num m = Num r \<Longrightarrow> \<exists>k::int. r = of_int k * m"
  by (auto simp: mul_is_Num dest: np_trunc_is_Num)

lemma np_fmax_zero_multiple:
  assumes "np_fmax a (Num 0) = Num r" and "\<And>x. a = Num x \<Longrightarrow> \<exists>k::int. x = of_int k * m"
  shows "\<exists>k::int. r = of_int k * m"
proof (cases a)
  case (Num x)
  then obtain k :: int where "x = of_int k * m" using assms(2) by blast
  with Num assms(1) show ?thesis
    by (cases "x < 0") (auto simp: np_fmax_def intro: exI[of _ 0])
qed (use assms(1) in \<open>auto simp: np_fmax_def intro: exI[of _ 0]\<close>)

section \<open>Rates of the cost model\<close>

lemma length_min_rate_buy: "length (min_rate_buy bm vs) = length vs"
  by (simp add: min_rate_buy_def)

lemma length_min_rate_sell: "length (min_rate_sell sm vs) = length vs"
  by (simp add: min_rate_sell_def)

lemma calculate_length: "length (calculate c vs b f) = length vs"
  by (simp add: calculate_def length_min_rate_buy length_min_rate_sell Let_def)

lemma min_rate_buy_nth:
  "i < length vs \<Longrightarrow> min_rate_buy bm vs ! i = bm / (vs ! i - bm)"
  by (simp add: min_rate_buy_def)

lemma min_rate_sell_nth:
  "i < length vs \<Longrightarrow> min_rate_sell sm vs ! i =
     (if np_isinf ((- sm) / (vs ! i)) then Num 0 else (- sm) / (vs ! i))"
  by (simp add: min_rate_sell_def)

lemma calculate_buy_min_nth:
  "i < length vs \<Longrightarrow> \<not> eq_zero (buy_min c) \<Longrightarrow>
   calculate c vs True False ! i
     = np_fmax (buy_rate c) (min_rate_buy (buy_min c) vs ! i) + slipage c * vs ! i"
  by (simp add: calculate_def Let_def length_min_rate_buy)

lemma calculate_sell_min_nth:
  "i < length vs \<Longrightarrow> \<not> eq_zero (sell_min c) \<Longrightarrow>
   calculate c vs False False ! i
     = np_fmax (sell_rate c) (min_rate_sell (sell_min c) vs ! i) + slipage c * vs ! i"
  by (simp add: calculate_def Let_def length_min_rate_sell)

text \<open>
  Claim C6, as stated: in the rate mode with a minimum fee that is not zero, an
  instrument whose trade value is exactly zero has its minimum-fee rate forced to zero,
  when buying as when selling. When buying, the minimum-fee rate of a zero trade value and
  a minimum fee of 5 is \<open>5 / (0 - 5) = -1\<close>, not zero.
\<close>

theorem min_rate_buy_zero_trade_value_counterexample:
  "min_rate_buy (Num 5) [Num 0] = [Num (- 1)] \<and> min_rate_buy (Num 5) [Num 0] \<noteq> [Num 0]"
  by (simp add: min_rate_buy_def minus_float64_def)

text \<open>
  Claim C6, amended: in the rate mode, an instrument whose trade value is exactly zero
  gets a finite rate on each side whose minimum fee is a number other than zero (the
  rate and the slippage being numbers). When selling, its minimum-fee rate
  \<open>-sell_min / 0\<close> is infinite and is overwritten with zero, and the rate returned is the
  larger of \<open>sell_rate\<close> and zero. When buying, its minimum-fee rate is
  \<open>buy_min / (0 - buy_min) = -1\<close> (nothing is divided by zero there and nothing is
  overwritten), and the rate returned is the larger of \<open>buy_rate\<close> and \<open>-1\<close>.
\<close>

theorem calculate_zero_trade_value_finite:
  assumes "i < length vs" and "vs ! i = Num 0" and "slipage c = Num slp"
  shows "(sell_min c = Num sm \<and> sm \<noteq> 0 \<and> sell_rate c = Num sr \<longrightarrow>
            min_rate_sell (sell_min c) vs ! i = Num 0
          \<and> calculate c vs False False ! i = Num (max sr 0))
       \<and> (buy_min c = Num bm \<and> bm \<noteq> 0 \<and> buy_rate c = Num br \<longrightarrow>
            min_rate_buy (buy_min c) vs ! i = Num (- 1)
          \<and> calculate c vs True False ! i = Num (max br (- 1)))"
proof (intro conjI impI)
  assume s: "sell_min c = Num sm \<and> sm \<noteq> 0 \<and> sell_rate c = Num sr"
  show ms: "min_rate_sell (sell_min c) vs ! i = Num 0"
    using assms s by (simp add: min_rate_sell_nth np_isinf_def inf_of_sign_def)
  show "calculate c vs False False ! i = Num (max sr 0)"
    using assms s ms by (simp add: calculate_sell_min_nth eq_zero_def np_fmax_def max_def)
next
  assume b: "buy_min c = Num bm \<and> bm \<noteq> 0 \<and> buy_rate c = Num br"
  show mb: "min_rate_buy (buy_min c) vs ! i = Num (- 1)"
    using assms b by (simp add: min_rate_buy_nth minus_float64_def)
  show "calculate c vs True False ! i = Num (max br (- 1))"
    using assms b mb by (simp add: calculate_buy_min_nth eq_zero_def np_fmax_def max_def)
qed

theorem calculate_zero_trade_value_finite_witness:
  "min_rate_buy (buy_min default_Cost) [Num 1000, Num 0] ! 1 = Num (- 1)
   \<and> calculate default_Cost [Num 1000, Num 0] True False ! 1 = Num (max (3 / 1000) (- 1))
   \<and> min_rate_sell (sell_min (default_Cost\<lparr>sell_min := Num 5\<rparr>)) [Num 1000, Num 0] ! 1 = Num 0
   \<and> calculate (default_Cost\<lparr>sell_min := Num 5\<rparr>) [Num 1000, Num 0] False False ! 1
       = Num (max (1 / 1000) 0)"
  using calculate_zero_trade_value_finite [of 1 "[Num 1000, Num 0]" default_Cost 0 0 0 5 "3 / 1000"]
    calculate_zero_trade_value_finite [of 1 "[Num 1000, Num 0]"
      "default_Cost\<lparr>sell_min := Num 5\<rparr>" 0 5 "1 / 1000" 5 "3 / 1000"]
  by (simp add: default_Cost_def)

text \<open>
  Claim C7: with a slippage coefficient that is not zero, the slippage term is subtracted
  from the selling rate, for every value of \<open>sell_min\<close>. The code subtracts it when
  \<open>sell_min\<close> is zero and adds it otherwise: for a sale of value \<open>-1000\<close> with a sell rate
  and a slippage of one per mille, the rate is \<open>0.001 - 0.001 * (-1000) = 1.001\<close> without
  a minimum fee and \<open>0.005 + 0.001 * (-1000) = -0.995\<close> with a minimum fee of 5.
\<close>

theorem sell_rate_slippage_added_with_sell_min:
  "calculate \<lparr>buy_fix = Num 0, sell_fix = Num 0, buy_rate = Num (3 / 1000),
      sell_rate = Num (1 / 1000), buy_min = Num 5, sell_min = Num 5, slipage = Num (1 / 1000)\<rparr>
     [Num (- 1000)] False False = [Num (5 / 1000 + 1 / 1000 * (- 1000))]
   \<and> calculate \<lparr>buy_fix = Num 0, sell_fix = Num 0, buy_rate = Num (3 / 1000),
      sell_rate = Num (1 / 1000), buy_min = Num 5, sell_min = Num 0, slipage = Num (1 / 1000)\<rparr>
     [Num (- 1000)] False False = [Num (1 / 1000 - 1 / 1000 * (- 1000))]"
  by (simp add: calculate_def min_rate_sell_def eq_zero_def np_isinf_def np_fmax_def
      minus_float64_def)

section \<open>Purchases, instrument by instrument\<close>

lemma length_map3:
  "length (map3 f xs ys zs) = min (length xs) (min (length ys) (length zs))"
  by (simp add: map3_def)

lemma map3_nth:
  "i < length xs \<Longrightarrow> i < length ys \<Longrightarrow> i < length zs \<Longrightarrow>
   map3 f xs ys zs ! i = f (xs ! i) (ys ! i) (zs ! i)"
  by (simp add: map3_def)

lemma length_purchase_rates: "length (purchase_rates c cs) = length cs"
  by (simp add: purchase_rates_def calculate_length)

lemma length_purchase_fixed_fees: "length (purchase_fixed_fees c cs) = length cs"
  by (simp add: purchase_fixed_fees_def calculate_length)

lemma length_a_purchased:
  "length cs = length ps \<Longrightarrow> length (a_purchased c ps cs moq) = length ps"
  by (simp add: a_purchased_def Let_def length_map3 length_purchase_rates
      length_purchase_fixed_fees)

lemma length_purchase_fees:
  "length cs = length ps \<Longrightarrow> length (purchase_fees c ps cs moq) = length ps"
  by (simp add: purchase_fees_def Let_def length_map3 length_purchase_rates
      length_purchase_fixed_fees length_a_purchased)

lemma length_cash_spent:
  "length cs = length ps \<Longrightarrow> length (cash_spent c ps cs moq) = length ps"
  by (simp add: cash_spent_def Let_def length_map3 length_purchase_rates
      length_purchase_fixed_fees length_a_purchased length_purchase_fees)

lemma a_purchased_nth:
  assumes "i < length ps" and "length cs = length ps"
  shows "a_purchased c ps cs moq ! i =
     (if eq_zero (buy_fix c) then
        (if eq_zero moq
         then (if truthy (ps ! i) then cs ! i / (ps ! i * (Num 1 + purchase_rates c cs ! i))
               else Num 0)
         else (if truthy (ps ! i)
               then np_trunc (cs ! i / (ps ! i * moq * (Num 1 + purchase_rates c cs ! i))) * moq
               else Num 0))
      else
        (if eq_zero moq
         then np_fmax (if truthy (ps ! i) then (cs ! i - purchase_fixed_fees c cs ! i) / ps ! i
                       else Num 0) (Num 0)
         else np_fmax (if truthy (ps ! i)
                       then np_trunc ((cs ! i - purchase_fixed_fees c cs ! i) / (ps ! i * moq)) * moq
                       else Num 0) (Num 0)))"
  using assms
  by (simp add: a_purchased_def Let_def map3_nth length_purchase_rates
      length_purchase_fixed_fees)

lemma purchase_fees_nth:
  assumes "i < length ps" and "length cs = length ps"
  shows "purchase_fees c ps cs moq ! i =
     (if eq_zero (buy_fix c) then
        (if truthy (a_purchased c ps cs moq ! i)
         then np_fmax (a_purchased c ps cs moq ! i * ps ! i * purchase_rates c cs ! i) (buy_min c)
         else Num 0)
      else
        (if truthy (a_purchased c ps cs moq ! i) then purchase_fixed_fees c cs ! i else Num 0))"
  using assms
  by (simp add: purchase_fees_def Let_def map3_nth length_purchase_rates
      length_purchase_fixed_fees length_a_purchased)

lemma cash_spent_nth:
  assumes "i < length ps" and "length cs = length ps"
  shows "cash_spent c ps cs moq ! i =
     (if eq_zero (buy_fix c) then
        (if truthy (a_purchased c ps cs moq ! i)
         then Num (-1) * (a_purchased c ps cs moq ! i * ps ! i + purchase_fees c ps cs moq ! i)
         else Num 0)
      else
        (if truthy (a_purchased c ps cs moq ! i)
         then Num (-1) * a_purchased c ps cs moq ! i * ps ! i - purchase_fixed_fees c cs ! i
         else Num 0))"
  using assms
  by (simp add: cash_spent_def Let_def map3_nth length_map3 length_purchase_rates
      length_purchase_fixed_fees length_a_purchased length_purchase_fees)

text \<open>
  Claim C10: in every call of \<open>get_purchase_result\<close>, whatever the cost coefficients (rate
  mode or fixed-fee mode), the cash to spend and \<open>moq\<close> (zero or not), an instrument whose
  price is exactly zero is bought in quantity zero, and its entries in the arrays whose
  sums are the cash spent and the fee returned are zero: the quotient by the zero price
  never reaches the result.
\<close>

theorem zero_price_purchases_nothing:
  assumes "i < length prices" and "length cash_to_spend = length prices"
    and "prices ! i = Num 0"
  shows "fst (get_purchase_result c prices cash_to_spend moq) ! i = Num 0
       \<and> cash_spent c prices cash_to_spend moq ! i = Num 0
       \<and> purchase_fees c prices cash_to_spend moq ! i = Num 0
       \<and> snd (get_purchase_result c prices cash_to_spend moq)
           = (np_sum (cash_spent c prices cash_to_spend moq),
              np_sum (purchase_fees c prices cash_to_spend moq))"
proof -
  have a0: "a_purchased c prices cash_to_spend moq ! i = Num 0"
    using assms by (simp add: a_purchased_nth truthy_def np_fmax_def)
  have f0: "purchase_fees c prices cash_to_spend moq ! i = Num 0"
    using assms(1,2) a0 by (simp add: purchase_fees_nth truthy_def)
  have s0: "cash_spent c prices cash_to_spend moq ! i = Num 0"
    using assms(1,2) a0 by (simp add: cash_spent_nth truthy_def)
  from a0 f0 s0 show ?thesis
    by (simp add: get_purchase_result_def)
qed

theorem zero_price_purchases_nothing_witness:
  "fst (get_purchase_result (default_Cost\<lparr>buy_fix := Num 5\<rparr>) [Num 10, Num 0]
          [Num 1000, Num 1000] (Num 100)) ! 1 = Num 0
   \<and> cash_spent (default_Cost\<lparr>buy_fix := Num 5\<rparr>) [Num 10, Num 0]
          [Num 1000, Num 1000] (Num 100) ! 1 = Num 0
   \<and> purchase_fees (default_Cost\<lparr>buy_fix := Num 5\<rparr>) [Num 10, Num 0]
          [Num 1000, Num 1000] (Num 100) ! 1 = Num 0"
  using zero_price_purchases_nothing [of 1 "[Num 10, Num 0]" "[Num 1000, Num 1000]"
      "default_Cost\<lparr>buy_fix := Num 5\<rparr>" "Num 100"]
  by simp

section \<open>Lot sizes\<close>

lemma fst_get_selling_result:
  "fst (get_selling_result c prices a_to_sell moq) =
     (if eq_zero moq then a_to_sell else map (\<lambda>a. np_trunc (a / moq) * moq) a_to_sell)"
  by (simp add: get_selling_result_def Let_def)

lemma isfinite_Num_conv: "np_isfinite x \<longleftrightarrow> (\<exists>r. x = Num r)"
  by (cases x) auto

lemma a_sold_multiple:
  assumes "m \<noteq> 0" and "x \<in> set (fst (get_selling_result c prices a_to_sell (Num m)))"
    and "x = Num r"
  shows "\<exists>k::int. r = of_int k * m"
proof -
  from assms(1,2) obtain a where "x = np_trunc (a / Num m) * Num m"
    by (auto simp: fst_get_selling_result eq_zero_def)
  with assms(3) show ?thesis by (auto dest: trunc_times_multiple)
qed

lemma a_purchased_multiple:
  assumes "m \<noteq> 0" and "length cs = length ps"
    and "x \<in> set (a_purchased c ps cs (Num m))" and "x = Num r"
  shows "\<exists>k::int. r = of_int k * m"
proof -
  from assms(2,3) obtain i where i: "i < length ps" and x: "x = a_purchased c ps cs (Num m) ! i"
    by (auto simp: in_set_conv_nth length_a_purchased)
  have zero: "\<exists>k::int. (0::real) = of_int k * m" by (rule exI[of _ 0]) simp
  show ?thesis
  proof (cases "eq_zero (buy_fix c)")
    case True
    with i assms(1,2) x have
      "x = (if truthy (ps ! i)
            then np_trunc (cs ! i / (ps ! i * Num m * (Num 1 + purchase_rates c cs ! i))) * Num m
            else Num 0)"
      by (simp add: a_purchased_nth eq_zero_def)
    with assms(4) zero show ?thesis
      by (auto split: if_splits dest: trunc_times_multiple)
  next
    case False
    with i assms(1,2) x have fm:
      "x = np_fmax (if truthy (ps ! i)
            then np_trunc ((cs ! i - purchase_fixed_fees c cs ! i) / (ps ! i * Num m)) * Num m
            else Num 0) (Num 0)"
      by (simp add: a_purchased_nth eq_zero_def)
    show ?thesis
    proof (rule np_fmax_zero_multiple)
      show "np_fmax (if truthy (ps ! i)
            then np_trunc ((cs ! i - purchase_fixed_fees c cs ! i) / (ps ! i * Num m)) * Num m
            else Num 0) (Num 0) = Num r"
        using fm assms(4) by simp
    next
      fix y
      assume "(if truthy (ps ! i)
            then np_trunc ((cs ! i - purchase_fixed_fees c cs ! i) / (ps ! i * Num m)) * Num m
            else Num 0) = Num y"
      with zero show "\<exists>k::int. y = of_int k * m"
        by (auto split: if_splits dest: trunc_times_multiple)
    qed
  qed
qed

lemma methods_truncate_to_moq:
  assumes "m \<noteq> 0" and "length cash_to_spend = length prices"
  shows "(\<forall>x\<in>set (fst (get_selling_result c prices a_to_sell (Num m))).
            np_isfinite x \<longrightarrow> (\<exists>k::int. x = Num (of_int k * m)))
       \<and> (\<forall>x\<in>set (fst (get_purchase_result c prices cash_to_spend (Num m))).
            np_isfinite x \<longrightarrow> (\<exists>k::int. x = Num (of_int k * m)))"
proof (intro conjI ballI impI)
  fix x
  assume "x \<in> set (fst (get_selling_result c prices a_to_sell (Num m)))" and "np_isfinite x"
  then show "\<exists>k::int. x = Num (of_int k * m)"
    using a_sold_multiple [OF assms(1)] by (auto simp: isfinite_Num_conv)
next
  fix x
  assume "x \<in> set (fst (get_purchase_result c prices cash_to_spend (Num m)))"
    and "np_isfinite x"
  then show "\<exists>k::int. x = Num (of_int k * m)"
    using a_purchased_multiple [OF assms]
    by (auto simp: isfinite_Num_conv get_purchase_result_def)
qed


section \<open>Conservation of value in a trade step\<close>

lemma isfinite_add_iff: "np_isfinite (a + b) \<longleftrightarrow> np_isfinite a \<and> np_isfinite b"
  by (cases a; cases b) auto

lemma isfinite_mul_iff: "np_isfinite (a * b) \<longleftrightarrow> np_isfinite a \<and> np_isfinite b"
  by (cases a; cases b) (auto simp: inf_of_sign_def)

lemma isfinite_neg_iff: "np_isfinite (- a) \<longleftrightarrow> np_isfinite a"
  by (cases a) auto

lemma isfinite_sub_iff: "np_isfinite (a - b) \<longleftrightarrow> np_isfinite a \<and> np_isfinite b"
  by (simp add: minus_float64_def isfinite_add_iff isfinite_neg_iff)

lemma val_add: "np_isfinite a \<Longrightarrow> np_isfinite b \<Longrightarrow> val (a + b) = val a + val b"
  by (cases a; cases b) auto

lemma val_mul: "np_isfinite a \<Longrightarrow> np_isfinite b \<Longrightarrow> val (a * b) = val a * val b"
  by (cases a; cases b) auto

lemma val_neg: "val (- a) = - val a"
  by (cases a) auto

lemma val_sub: "np_isfinite a \<Longrightarrow> np_isfinite b \<Longrightarrow> val (a - b) = val a - val b"
  by (simp add: minus_float64_def val_add val_neg isfinite_neg_iff)

lemmas isfinite_simps = isfinite_add_iff isfinite_mul_iff isfinite_neg_iff isfinite_sub_iff
lemmas val_simps = val_add val_mul val_neg val_sub

lemma np_sum_isfinite_iff: "np_isfinite (np_sum xs) \<longleftrightarrow> (\<forall>x\<in>set xs. np_isfinite x)"
  by (induction xs) (auto simp: isfinite_add_iff)

lemma val_np_sum: "\<forall>x\<in>set xs. np_isfinite x \<Longrightarrow> val (np_sum xs) = sum_list (map val xs)"
  by (induction xs) (auto simp: val_add np_sum_isfinite_iff)

lemma np_sum_isfinite_nth:
  "np_isfinite (np_sum xs) \<longleftrightarrow> (\<forall>i<length xs. np_isfinite (xs ! i))"
  by (simp add: np_sum_isfinite_iff all_set_conv_all_nth)

lemma val_np_sum_nth:
  assumes "np_isfinite (np_sum xs)"
  shows "val (np_sum xs) = (\<Sum>i<length xs. val (xs ! i))"
proof -
  have "val (np_sum xs) = sum_list (map val xs)"
    using assms by (simp add: val_np_sum np_sum_isfinite_iff)
  also have "\<dots> = (\<Sum>i<length xs. val (xs ! i))"
    by (simp add: sum_list_sum_nth atLeast0LessThan)
  finally show ?thesis .
qed

lemma rate_sale_sums:
  assumes "length V = length R"
    and "np_isfinite (np_sum (map2 (\<lambda>v r. Num (-1) * v * (Num 1 - r)) V R))"
  shows "np_isfinite (np_sum V) \<and> np_isfinite (np_sum (map2 (\<lambda>v r. v * r) V R))
       \<and> val (np_sum (map2 (\<lambda>v r. Num (-1) * v * (Num 1 - r)) V R))
           = - val (np_sum V) + val (np_sum (map2 (\<lambda>v r. v * r) V R))"
  using assms
proof (induction V R rule: list_induct2)
  case Nil
  show ?case by simp
next
  case (Cons v V r R)
  from Cons.prems have fin: "np_isfinite v" "np_isfinite r"
    and rest: "np_isfinite (np_sum (map2 (\<lambda>v r. Num (-1) * v * (Num 1 - r)) V R))"
    by (auto simp: isfinite_simps)
  from Cons.IH [OF rest] fin rest show ?case
    by (simp add: isfinite_simps val_simps algebra_simps)
qed

lemma length_a_sold:
  "length (fst (get_selling_result c prices a_to_sell moq)) = length a_to_sell"
  by (simp add: fst_get_selling_result)

lemma selling_conserves:
  assumes "length a_to_sell = length prices"
    and "get_selling_result c prices a_to_sell moq = (S, cg, fs)"
    and "np_isfinite cg"
  shows "np_isfinite fs \<and> np_isfinite (np_sum (map2 (\<lambda>a p. a * p) S prices))
       \<and> val cg = - val (np_sum (map2 (\<lambda>a p. a * p) S prices)) - val fs"
proof (cases "eq_zero (sell_fix c)")
  case True
  define V where "V = map2 (\<lambda>a p. a * p) S prices"
  define R where "R = calculate c V False False"
  have S: "S = (if eq_zero moq then a_to_sell
                else map (\<lambda>a. np_trunc (a / moq) * moq) a_to_sell)"
    using assms(2) fst_get_selling_result [of c prices a_to_sell moq] by simp
  have len: "length V = length R" by (simp add: R_def calculate_length)
  have cg: "cg = np_sum (map2 (\<lambda>v r. Num (-1) * v * (Num 1 - r)) V R)"
    and fs: "fs = - np_sum (map2 (\<lambda>v r. v * r) V R)"
    using assms(2) True S by (auto simp: get_selling_result_def Let_def V_def R_def)
  from rate_sale_sums [OF len] assms(3) cg fs show ?thesis
    by (simp add: V_def [symmetric] isfinite_simps val_simps)
next
  case False
  define V where "V = map2 (\<lambda>a p. a * p) S prices"
  have S: "S = (if eq_zero moq then a_to_sell
                else map (\<lambda>a. np_trunc (a / moq) * moq) a_to_sell)"
    using assms(2) fst_get_selling_result [of c prices a_to_sell moq] by simp
  have cg: "cg = - np_sum V - fs"
    using assms(2) False S by (auto simp: get_selling_result_def Let_def V_def)
  from assms(3) cg show ?thesis
    by (simp add: V_def [symmetric] isfinite_simps val_simps)
qed

lemma purchase_entry:
  assumes i: "i < length prices" and len: "length cash = length prices"
    and fin: "np_isfinite (cash_spent c prices cash moq ! i)"
    and finB: "np_isfinite (a_purchased c prices cash moq ! i)"
    and finP: "np_isfinite (prices ! i)"
  shows "np_isfinite (purchase_fees c prices cash moq ! i)
       \<and> val (cash_spent c prices cash moq ! i)
           = - (val (a_purchased c prices cash moq ! i) * val (prices ! i))
             - val (purchase_fees c prices cash moq ! i)"
proof (cases "truthy (a_purchased c prices cash moq ! i)")
  case False
  then have "a_purchased c prices cash moq ! i = Num 0" by (simp add: truthy_def)
  with i len show ?thesis
    by (simp add: cash_spent_nth purchase_fees_nth truthy_def)
next
  case True
  show ?thesis
  proof (cases "eq_zero (buy_fix c)")
    case rate: True
    from i len True rate have cs: "cash_spent c prices cash moq ! i
        = Num (-1) * (a_purchased c prices cash moq ! i * prices ! i
                        + purchase_fees c prices cash moq ! i)"
      by (simp add: cash_spent_nth)
    from fin have ff: "np_isfinite (purchase_fees c prices cash moq ! i)"
      unfolding cs by (simp add: isfinite_simps)
    from ff finB finP show ?thesis
      unfolding cs by (simp add: isfinite_simps val_simps)
  next
    case fixed: False
    from i len True fixed have cs: "cash_spent c prices cash moq ! i
        = Num (-1) * a_purchased c prices cash moq ! i * prices ! i
            - purchase_fixed_fees c cash ! i"
      and pf: "purchase_fees c prices cash moq ! i = purchase_fixed_fees c cash ! i"
      by (simp_all add: cash_spent_nth purchase_fees_nth)
    from fin have ff: "np_isfinite (purchase_fixed_fees c cash ! i)"
      unfolding cs by (simp add: isfinite_simps)
    from ff finB finP show ?thesis
      unfolding cs pf by (simp add: isfinite_simps val_simps)
  qed
qed

lemma purchase_conserves:
  assumes len: "length cash = length prices"
    and res: "get_purchase_result c prices cash moq = (B, cs, fb)"
    and fin: "np_isfinite cs"
    and finB: "\<forall>i<length prices. np_isfinite (B ! i)"
    and finP: "\<forall>i<length prices. np_isfinite (prices ! i)"
  shows "np_isfinite fb \<and> np_isfinite (np_sum (map2 (\<lambda>a p. a * p) B prices))
       \<and> val cs = - val (np_sum (map2 (\<lambda>a p. a * p) B prices)) - val fb"
proof -
  let ?n = "length prices"
  let ?CS = "cash_spent c prices cash moq"
  let ?F = "purchase_fees c prices cash moq"
  from res have B: "B = a_purchased c prices cash moq" and cs: "cs = np_sum ?CS"
    and fb: "fb = np_sum ?F"
    by (simp_all add: get_purchase_result_def)
  have lenB: "length B = ?n" using len by (simp add: B length_a_purchased)
  have lenCS: "length ?CS = ?n" using len by (simp add: length_cash_spent)
  have lenF: "length ?F = ?n" using len by (simp add: length_purchase_fees)
  have finCS: "\<forall>i<?n. np_isfinite (?CS ! i)"
    using fin lenCS by (simp add: cs np_sum_isfinite_nth)
  have entry: "np_isfinite (?F ! i) \<and> val (?CS ! i) = - (val (B ! i) * val (prices ! i)) - val (?F ! i)"
    if "i < ?n" for i
    using purchase_entry [OF that len] finCS finB finP that by (simp add: B)
  have finF: "np_isfinite fb"
    using entry lenF by (simp add: fb np_sum_isfinite_nth)
  have finBP: "np_isfinite (np_sum (map2 (\<lambda>a p. a * p) B prices))"
    using finB finP lenB by (simp add: np_sum_isfinite_nth isfinite_simps)
  have "val cs = (\<Sum>i<?n. val (?CS ! i))"
    using fin lenCS by (simp add: cs val_np_sum_nth)
  also have "\<dots> = (\<Sum>i<?n. - (val (B ! i) * val (prices ! i)) - val (?F ! i))"
    using entry by (intro sum.cong) auto
  also have "\<dots> = - (\<Sum>i<?n. val (B ! i) * val (prices ! i)) - (\<Sum>i<?n. val (?F ! i))"
    by (simp add: sum_subtractf sum_negf)
  also have "(\<Sum>i<?n. val (?F ! i)) = val fb"
    using finF lenF by (simp add: fb val_np_sum_nth)
  also have "(\<Sum>i<?n. val (B ! i) * val (prices ! i))
      = val (np_sum (map2 (\<lambda>a p. a * p) B prices))"
    using finBP lenB finB finP by (simp add: val_np_sum_nth val_simps)
  finally show ?thesis using finF finBP by simp
qed

lemma length_pur_values: "length (pur_values v op cash) = length op"
  by (simp add: pur_values_def Let_def)

lemma holdings_value_split:
  assumes "length A = n" and "length B = n" and "length S = n" and "length P = n"
    and "np_isfinite (np_sum (map2 (\<lambda>a p. a * p)
           (map2 (\<lambda>a s. a + s) (map2 (\<lambda>a b. a + b) A B) S) P))"
  shows "(\<forall>i<n. np_isfinite (A ! i) \<and> np_isfinite (B ! i) \<and> np_isfinite (S ! i)
              \<and> np_isfinite (P ! i))
       \<and> val (np_sum (map2 (\<lambda>a p. a * p)
           (map2 (\<lambda>a s. a + s) (map2 (\<lambda>a b. a + b) A B) S) P))
         = val (np_sum (map2 (\<lambda>a p. a * p) A P)) + val (np_sum (map2 (\<lambda>a p. a * p) B P))
           + val (np_sum (map2 (\<lambda>a p. a * p) S P))"
proof -
  have fin: "\<forall>i<n. np_isfinite (A ! i) \<and> np_isfinite (B ! i) \<and> np_isfinite (S ! i)
              \<and> np_isfinite (P ! i)"
    using assms by (simp add: np_sum_isfinite_nth isfinite_simps)
  have fA: "np_isfinite (np_sum (map2 (\<lambda>a p. a * p) A P))"
    and fB: "np_isfinite (np_sum (map2 (\<lambda>a p. a * p) B P))"
    and fS: "np_isfinite (np_sum (map2 (\<lambda>a p. a * p) S P))"
    using fin assms(1-4) by (simp_all add: np_sum_isfinite_nth isfinite_simps)
  have "val (np_sum (map2 (\<lambda>a p. a * p)
           (map2 (\<lambda>a s. a + s) (map2 (\<lambda>a b. a + b) A B) S) P))
      = (\<Sum>i<n. (val (A ! i) + val (B ! i) + val (S ! i)) * val (P ! i))"
    using assms fin by (simp add: val_np_sum_nth val_simps isfinite_simps)
  also have "\<dots> = (\<Sum>i<n. val (A ! i) * val (P ! i)) + (\<Sum>i<n. val (B ! i) * val (P ! i))
      + (\<Sum>i<n. val (S ! i) * val (P ! i))"
    by (simp add: distrib_right sum.distrib)
  also have "(\<Sum>i<n. val (A ! i) * val (P ! i)) = val (np_sum (map2 (\<lambda>a p. a * p) A P))"
    using fA fin assms(1-4) by (simp add: val_np_sum_nth val_simps)
  also have "(\<Sum>i<n. val (B ! i) * val (P ! i)) = val (np_sum (map2 (\<lambda>a p. a * p) B P))"
    using fB fin assms(1-4) by (simp add: val_np_sum_nth val_simps)
  also have "(\<Sum>i<n. val (S ! i) * val (P ! i)) = val (np_sum (map2 (\<lambda>a p. a * p) S P))"
    using fS fin assms(1-4) by (simp add: val_np_sum_nth val_simps)
  finally show ?thesis using fin by simp
qed

lemma loop_step_Inr:
  assumes "loop_step rate pre_cash A op prices moq = Inr (cash, amounts, fee, v)"
  obtains S cg fs B cs fb where
    "selling_result rate [(''prices'', Array prices), (''op'', Array op), (''amounts'', Array A)]
       = Inr (S, cg, fs)"
    "purchase_result rate [(''prices'', Array prices), (''op'', Array op),
        (''pur_values'', Array (pur_values (pre_cash + np_sum (map2 (\<lambda>a p. a * p) A prices)) op
                                 (pre_cash + cg))), (''moq'', Number moq)] = Inr (B, cs, fb)"
    "cash = pre_cash + cg + cs"
    "amounts = map2 (\<lambda>a s. a + s) (map2 (\<lambda>a b. a + b) A B) S"
    "fee = fb + fs"
    "v = np_sum (map2 (\<lambda>a p. a * p) amounts prices) + cash"
  using assms
  by (auto simp: loop_step_def Let_def split: sum.splits prod.splits)

lemma loop_step_conserves_value:
  assumes step: "loop_step rate pre_cash A op prices moq = Inr (cash, amounts, fee, Num v)"
    and lenA: "length A = length prices"
    and lens: "\<And>call S cg fs. selling_result rate call = Inr (S, cg, fs) \<Longrightarrow>
                 length S = length prices"
    and lenb: "\<And>call B cs fb. purchase_result rate call = Inr (B, cs, fb) \<Longrightarrow>
                 length B = length prices"
    and sells: "\<And>call S cg fs. selling_result rate call = Inr (S, cg, fs) \<Longrightarrow> np_isfinite cg \<Longrightarrow>
                 np_isfinite fs \<and> val cg = - val (np_sum (map2 (\<lambda>a p. a * p) S prices)) - val fs"
    and buys: "\<And>call B cs fb. purchase_result rate call = Inr (B, cs, fb) \<Longrightarrow> np_isfinite cs \<Longrightarrow>
                 \<forall>i<length prices. np_isfinite (B ! i) \<and> np_isfinite (prices ! i) \<Longrightarrow>
                 np_isfinite fb \<and> val cs = - val (np_sum (map2 (\<lambda>a p. a * p) B prices)) - val fb"
  shows "\<exists>pv f. pre_cash + np_sum (map2 (\<lambda>a p. a * p) A prices) = Num pv
             \<and> fee = Num f \<and> v = pv - f"
proof -
  from step obtain S cg fs B cs fb where
    sell: "selling_result rate [(''prices'', Array prices), (''op'', Array op), (''amounts'', Array A)]
       = Inr (S, cg, fs)"
    and buy: "purchase_result rate [(''prices'', Array prices), (''op'', Array op),
        (''pur_values'', Array (pur_values (pre_cash + np_sum (map2 (\<lambda>a p. a * p) A prices)) op
                                 (pre_cash + cg))), (''moq'', Number moq)] = Inr (B, cs, fb)"
    and cash: "cash = pre_cash + cg + cs"
    and am: "amounts = map2 (\<lambda>a s. a + s) (map2 (\<lambda>a b. a + b) A B) S"
    and fee: "fee = fb + fs"
    and veq: "Num v = np_sum (map2 (\<lambda>a p. a * p) amounts prices) + cash"
    by (rule loop_step_Inr)
  from veq have fv: "np_isfinite (np_sum (map2 (\<lambda>a p. a * p) amounts prices))"
    and fc: "np_isfinite pre_cash" "np_isfinite cg" "np_isfinite cs"
    and v: "v = val (np_sum (map2 (\<lambda>a p. a * p) amounts prices))
              + (val pre_cash + val cg + val cs)"
    using add_is_Num [of "np_sum (map2 (\<lambda>a p. a * p) amounts prices)" cash v]
      add_is_Num [of "pre_cash + cg" cs] add_is_Num [of pre_cash cg]
    by (auto simp: cash)
  note split = holdings_value_split [OF lenA lenb [OF buy] lens [OF sell] refl fv [unfolded am]]
  from sells [OF sell fc(2)]
  have ffs: "np_isfinite fs"
    and g: "val cg = - val (np_sum (map2 (\<lambda>a p. a * p) S prices)) - val fs"
    by simp_all
  from buys [OF buy fc(3)] split
  have ffb: "np_isfinite fb"
    and s: "val cs = - val (np_sum (map2 (\<lambda>a p. a * p) B prices)) - val fb"
    by simp_all
  have fpa: "np_isfinite (np_sum (map2 (\<lambda>a p. a * p) A prices))"
    using split lenA by (simp add: np_sum_isfinite_nth isfinite_simps)
  from fpa fc(1) have pv: "pre_cash + np_sum (map2 (\<lambda>a p. a * p) A prices)
      = Num (val pre_cash + val (np_sum (map2 (\<lambda>a p. a * p) A prices)))"
    by (auto simp: isfinite_Num_conv)
  from ffb ffs have f: "fee = Num (val fb + val fs)"
    by (auto simp: fee isfinite_Num_conv)
  from split v g s have "v = (val pre_cash + val (np_sum (map2 (\<lambda>a p. a * p) A prices)))
      - (val fb + val fs)"
    by (simp add: am)
  with pv f show ?thesis by blast
qed

text \<open>
  Claim C1: the value that a trade step returns equals the value before the trade minus
  the fee. The arithmetic of the step conserves the value for every object \<open>rate\<close> whose
  methods return (\<open>loop_step_conserves_value\<close>), and the two methods of \<open>Cost\<close> keep
  their part (\<open>selling_conserves\<close>, \<open>purchase_conserves\<close>); but with an object of class
  \<open>Cost\<close> the step returns no value: its first call passes the keywords \<open>op\<close> and
  \<open>amounts\<close>, which \<open>get_selling_result\<close> does not declare, and raises TypeError, for
  every input.
\<close>

theorem loop_step_of_Cost_raises_TypeError:
  "loop_step (Cost_object c) pre_cash pre_amounts op prices moq = Inl TypeError"
  by (simp add: loop_step_def Cost_object_def bind_keywords_def Let_def)

section \<open>Cash spent on a purchase\<close>

text \<open>
  Claim C2: the allocations of the purchases are scaled down to the cash at hand, and so
  the purchases never make the cash negative. \<open>get_purchase_result\<close> spends more than
  it is allocated when the allocation is below the minimum fee: with the default cost
  model (buy rate 0.003, minimum buy fee 5), a price of 1 and an allocation of 3, it buys
  for \<open>3 / 1.003\<close> and charges the fee of 5 on top, \<open>8015 / 1003\<close> in all, so that a
  cash of 3 becomes negative.
\<close>

theorem purchase_overspends_allocation_below_buy_min:
  "get_purchase_result default_Cost [Num 1] [Num 3] (Num 0)
     = ([Num (3000 / 1003)], Num (- 8015 / 1003), Num 5)
   \<and> Num 3 + Num (- 8015 / 1003) < Num 0"
  by (simp add: get_purchase_result_def a_purchased_def purchase_fees_def cash_spent_def
      purchase_rates_def map3_def calculate_def min_rate_buy_def default_Cost_def eq_zero_def
      np_fmax_def truthy_def minus_float64_def Let_def)

section \<open>The growth of idle cash\<close>

text \<open>
  Claim C3: with a positive inflation rate, the cash held before a period is multiplied by
  \<open>1 + (days since the previous period / 365) * rate\<close>. The factors that \<open>apply_loop\<close>
  computes divide the days by 250: for two dates 365 days apart and a rate of 0.03 the
  factor is \<open>1 + 365 * 0.03 / 250 = 1.0438\<close>, not \<open>1.03\<close>.
\<close>

theorem inflation_factor_divides_days_by_250:
  "inflation_factors (Num (3 / 100)) [0, 365] = [Num 1, Num (1 + 365 * (3 / 100) / 250)]
   \<and> inflation_factors (Num (3 / 100)) [0, 365] \<noteq> [Num 1, Num (1 + 365 / 365 * (3 / 100))]"
  by (simp add: inflation_factors_def days_difference_def)

section \<open>Cash plans with a date that is not a trading day\<close>










section \<open>The evaluator on an empty signal table\<close>

text \<open>
  When the strategy makes an empty signal table for a candidate, the evaluator returns
  negative infinity and raises nothing: the rest of the evaluation is not run. No score
  that is a number or an infinity is below it.
\<close>

lemma empty_signal_returns_neg_inf:
  assumes "create_signal par = Inr op_list" and "frame_empty op_list"
  shows "get_parameter_performance create_signal evaluate_signal par = Inr NegInf"
  using assms by (simp add: get_parameter_performance_def)

lemma neg_inf_least: "s \<noteq> NaN \<Longrightarrow> NegInf \<le> s"
  by (cases s) (simp_all add: less_eq_float64_def)


section \<open>The best entries of the result pool\<close>

lemma in_pool_all_Nil: "in_pool_all rp [] = rp"
  by (simp add: in_pool_all_def)

lemma in_pool_all_Cons: "in_pool_all rp ((item, perf) # es) = in_pool_all (in_pool rp item perf) es"
  by (simp add: in_pool_all_def)

lemma in_pool_all_props:
  "capacity (in_pool_all rp es) = capacity rp
   \<and> set (items (in_pool_all rp es)) = set (items rp) \<union> set es
   \<and> (distinct (items rp) \<longrightarrow> distinct (items (in_pool_all rp es)))"
proof (induction es arbitrary: rp)
  case Nil
  show ?case by (simp add: in_pool_all_Nil)
next
  case (Cons e es)
  obtain item perf where e: "e = (item, perf)" by (cases e)
  show ?case
    unfolding e in_pool_all_Cons using Cons.IH [of "in_pool rp item perf"]
    by (auto simp: in_pool_def)
qed

lemma length_inserted:
  "length (items (in_pool_all (new_pool k) es)) = card (set es)"
proof -
  have "distinct (items (in_pool_all (new_pool k) es))"
    and "set (items (in_pool_all (new_pool k) es)) = set es"
    using in_pool_all_props [of "new_pool k" es] by (simp_all add: new_pool_def)
  then show ?thesis by (metis distinct_card)
qed

lemma sorted_split_le:
  assumes "sorted (map f xs)" and "x \<in> set (take m xs)" and "y \<in> set (drop m xs)"
  shows "f x \<le> f y"
proof -
  have "sorted (map f (take m xs) @ map f (drop m xs))"
    using assms(1) by (simp flip: map_append)
  with assms(2,3) show ?thesis by (auto simp: sorted_append)
qed

lemma set_take_drop: "x \<in> set xs \<Longrightarrow> x \<notin> set (drop m xs) \<Longrightarrow> x \<in> set (take m xs)"
  by (metis Un_iff append_take_drop_id set_append)

text \<open>
  Claim C9: after a sequence of entries is inserted into an empty pool of capacity \<open>k\<close> and
  the pool is trimmed, the pool holds exactly \<open>min k (number of distinct entries)\<close>
  entries, not more than its capacity, all of them inserted ones and none twice, sorted
  by score with the best last, and no inserted entry outside the pool has a better score
  than an entry inside.
\<close>

theorem result_pool_top_k:
  fixes es :: "('p \<times> 's :: linorder) list"
  shows "(let rp = cut_pool (in_pool_all (new_pool k) es) keep_largest in
            length (items rp) = min k (card (set es))
          \<and> length (items rp) \<le> capacity rp
          \<and> set (items rp) \<subseteq> set es
          \<and> distinct (items rp)
          \<and> (if keep_largest then sorted (perfs rp) else sorted (rev (perfs rp)))
          \<and> (\<forall>e\<in>set es - set (items rp). \<forall>e'\<in>set (items rp).
                if keep_largest then snd e \<le> snd e' else snd e' \<le> snd e))"
proof -
  define xs where "xs = items (in_pool_all (new_pool k) es)"
  define L where "L = sort_key snd xs"
  define m where "m = length xs - k"
  have cap: "capacity (in_pool_all (new_pool k) es) = k"
    and set_xs: "set xs = set es" and dist: "distinct xs"
    using in_pool_all_props [of "new_pool k" es] by (simp_all add: new_pool_def xs_def)
  have len: "length xs = card (set es)"
    unfolding xs_def by (rule length_inserted)
  have sortedL: "sorted (map snd L)" and setL: "set L = set es" and distL: "distinct L"
    and lenL: "length L = length xs"
    using set_xs dist by (simp_all add: L_def)
  show ?thesis
  proof (cases keep_largest)
    case True
    have it: "items (cut_pool (in_pool_all (new_pool k) es) True) = drop m L"
      and c: "capacity (cut_pool (in_pool_all (new_pool k) es) True) = k"
      using cap by (simp_all add: cut_pool_def Let_def xs_def [symmetric] L_def m_def)
    have 1: "length (drop m L) = min k (card (set es))"
      using len lenL by (simp add: m_def)
    have 3: "set (drop m L) \<subseteq> set es" using setL set_drop_subset by fastforce
    have 4: "distinct (drop m L)" using distL by simp
    have 5: "sorted (map snd (drop m L))"
      using sortedL by (simp add: sorted_wrt_drop flip: drop_map)
    have 6: "snd e \<le> snd e'" if "e \<in> set es - set (drop m L)" "e' \<in> set (drop m L)" for e e'
      using that sorted_split_le [OF sortedL, of e m e'] set_take_drop [of e L m] setL by auto
    from 1 3 4 5 6 True show ?thesis
      by (simp add: Let_def it c perfs_def)
  next
    case False
    have it: "items (cut_pool (in_pool_all (new_pool k) es) False) = drop m (rev L)"
      and c: "capacity (cut_pool (in_pool_all (new_pool k) es) False) = k"
      using cap by (simp_all add: cut_pool_def Let_def xs_def [symmetric] L_def m_def)
    have dr: "drop m (rev L) = rev (take (length L - m) L)"
      by (simp add: drop_rev)
    have 1: "length (drop m (rev L)) = min k (card (set es))"
      using len lenL by (simp add: m_def)
    have 3: "set (drop m (rev L)) \<subseteq> set es"
      unfolding dr using setL set_take_subset by fastforce
    have 4: "distinct (drop m (rev L))" using distL by simp
    have 5: "sorted (rev (map snd (drop m (rev L))))"
      unfolding dr using sortedL by (simp add: rev_map sorted_wrt_take flip: take_map)
    have 6: "snd e' \<le> snd e" if "e \<in> set es - set (drop m (rev L))" "e' \<in> set (drop m (rev L))"
      for e e'
    proof -
      from that(2) have a: "e' \<in> set (take (length L - m) L)" unfolding dr by simp
      from that(1) have "e \<in> set L" "e \<notin> set (take (length L - m) L)"
        unfolding dr using setL by auto
      then have b: "e \<in> set (drop (length L - m) L)"
        by (metis Un_iff append_take_drop_id set_append)
      from sorted_split_le [OF sortedL a b] show ?thesis .
    qed
    from 1 3 4 5 6 False show ?thesis
      by (simp add: Let_def it c perfs_def)
  qed
qed

theorem result_pool_top_k_witness:
  "items (cut_pool (in_pool_all (new_pool 2)
       [([1 :: int], 5 :: real), ([2], 3), ([1], 5), ([3], 9)]) True) = [([1], 5), ([3], 9)]
   \<and> length (items (cut_pool (in_pool_all (new_pool 2)
       [([1 :: int], 5 :: real), ([2], 3), ([1], 5), ([3], 9)]) True))
       = min 2 (card (set [([1 :: int], 5 :: real), ([2], 3), ([1], 5), ([3], 9)]))
   \<and> sorted (perfs (cut_pool (in_pool_all (new_pool 2)
       [([1 :: int], 5 :: real), ([2], 3), ([1], 5), ([3], 9)]) True))"
proof -
  have ev: "items (cut_pool (in_pool_all (new_pool 2)
       [([1 :: int], 5 :: real), ([2], 3), ([1], 5), ([3], 9)]) True) = [([1], 5), ([3], 9)]"
    by (simp add: cut_pool_def in_pool_all_def in_pool_def new_pool_def Let_def)
  from result_pool_top_k [of 2 "[([1 :: int], 5 :: real), ([2], 3), ([1], 5), ([3], 9)]" True]
  have "length (items (cut_pool (in_pool_all (new_pool 2)
       [([1 :: int], 5 :: real), ([2], 3), ([1], 5), ([3], 9)]) True))
       = min 2 (card (set [([1 :: int], 5 :: real), ([2], 3), ([1], 5), ([3], 9)]))"
    and "sorted (perfs (cut_pool (in_pool_all (new_pool 2)
       [([1 :: int], 5 :: real), ([2], 3), ([1], 5), ([3], 9)]) True))"
    by (simp_all add: Let_def)
  with ev show ?thesis by blast
qed

end
